theory Spec2Isabelle
  imports Main "HOL-Library.Sublist"
begin

section \<open>The Python values that get\_current\_time.py computes with\<close>

text \<open>
  Text is a list of bytes: the UTF-8 encoding of the Python text. Standard output is the
  text written so far (the only characters outside ASCII that the script itself writes are
  the bullets of the tips block, and what it echoes of a command-line token).
\<close>

subsection \<open>Integers as text\<close>

definition digit_char :: "nat \<Rightarrow> char" where
  "digit_char d = ''0123456789'' ! (d mod 10)"

fun str_nat :: "nat \<Rightarrow> string" where
  "str_nat n = (if n < 10 then [digit_char n] else str_nat (n div 10) @ [digit_char (n mod 10)])"

declare str_nat.simps [simp del]

text \<open>\<open>str(i)\<close>, which is also how an f-string renders \<open>{i}\<close>.\<close>

definition str_int :: "int \<Rightarrow> string" where
  "str_int i = (if i < 0 then CHR ''-'' # str_nat (nat (- i)) else str_nat (nat i))"

text \<open>The C conversion \<open>%02d\<close> (for \<open>w = 2\<close>): zeros on the left up to the width.\<close>

definition zfill :: "nat \<Rightarrow> string \<Rightarrow> string" where
  "zfill w s = replicate (w - length s) (CHR ''0'') @ s"

subsection \<open>\<open>str.lower\<close>\<close>

definition lower_char :: "char \<Rightarrow> char" where
  "lower_char c =
     (case map_of (zip ''ABCDEFGHIJKLMNOPQRSTUVWXYZ'' ''abcdefghijklmnopqrstuvwxyz'') c of
        Some l \<Rightarrow> l
      | None \<Rightarrow> c)"

definition is_ascii :: "char \<Rightarrow> bool" where
  "is_ascii c = ((of_char c :: nat) < 128)"

text \<open>
  On ASCII text \<open>str.lower\<close> maps the letters A to Z to a to z and leaves every other
  character as it is. On text with a character outside ASCII it follows the Unicode
  tables of the interpreter, which are no part of the script: that lowercasing (of UTF-8
  text) is the parameter \<open>unicode_lower\<close>, and nothing is assumed of it.
\<close>

definition lower :: "(string \<Rightarrow> string) \<Rightarrow> string \<Rightarrow> string" where
  "lower unicode_lower s = (if list_all is_ascii s then map lower_char s else unicode_lower s)"

subsection \<open>\<open>datetime\<close> and the system clock\<close>

record datetime =
  year :: int
  month :: int
  day :: int
  hour :: int
  minute :: int
  second :: int
  microsecond :: int

definition is_leap :: "int \<Rightarrow> bool" where
  "is_leap y = (y mod 4 = 0 \<and> (y mod 100 \<noteq> 0 \<or> y mod 400 = 0))"

definition days_in_month :: "int \<Rightarrow> int \<Rightarrow> int" where
  "days_in_month y m =
     (if m = 2 then (if is_leap y then 29 else 28)
      else if m = 4 \<or> m = 6 \<or> m = 9 \<or> m = 11 then 30
      else 31)"

text \<open>The range checks of the \<open>datetime\<close> constructor: every \<open>datetime\<close> object passes them.\<close>

definition valid_datetime :: "datetime \<Rightarrow> bool" where
  "valid_datetime dt =
     (1 \<le> year dt \<and> year dt \<le> 9999 \<and>
      1 \<le> month dt \<and> month dt \<le> 12 \<and>
      1 \<le> day dt \<and> day dt \<le> days_in_month (year dt) (month dt) \<and>
      0 \<le> hour dt \<and> hour dt < 24 \<and>
      0 \<le> minute dt \<and> minute dt < 60 \<and>
      0 \<le> second dt \<and> second dt < 60 \<and>
      0 \<le> microsecond dt \<and> microsecond dt < 1000000)"

text \<open>
  The system clock is the sequence of instants that successive reads return, and the
  number of reads made so far. \<open>datetime.now()\<close> returns the next instant and counts
  the read.
\<close>

record clock =
  reading :: "nat \<Rightarrow> datetime"
  reads :: nat

definition datetime_now :: "clock \<Rightarrow> datetime \<times> clock" where
  "datetime_now clk = (reading clk (reads clk), clk\<lparr>reads := Suc (reads clk)\<rparr>)"

subsection \<open>\<open>strftime\<close>\<close>

text \<open>
  The month names of the C locale: the script never calls \<open>setlocale\<close>, so
  \<open>LC_TIME\<close> stays at \<open>C\<close>. The month of a \<open>datetime\<close> is always within 1 to 12.
\<close>

definition month_name :: "int \<Rightarrow> string" where
  "month_name m =
     (if 1 \<le> m \<and> m \<le> 12
      then [''January'', ''February'', ''March'', ''April'', ''May'', ''June'', ''July'',
            ''August'', ''September'', ''October'', ''November'', ''December''] ! nat (m - 1)
      else [])"

text \<open>
  The conversions the script uses, as CPython on glibc renders them (\<open>%Y\<close> is the year
  in decimal, four digits from the year 1000 on); any other character after \<open>%\<close> is
  copied with its \<open>%\<close>.
\<close>

definition directive :: "datetime \<Rightarrow> char \<Rightarrow> string" where
  "directive dt c =
     (if c = CHR ''Y'' then str_int (year dt)
      else if c = CHR ''y'' then zfill 2 (str_int (year dt mod 100))
      else if c = CHR ''B'' then month_name (month dt)
      else if c = CHR ''m'' then zfill 2 (str_int (month dt))
      else if c = CHR ''d'' then zfill 2 (str_int (day dt))
      else if c = CHR ''H'' then zfill 2 (str_int (hour dt))
      else if c = CHR ''M'' then zfill 2 (str_int (minute dt))
      else if c = CHR ''S'' then zfill 2 (str_int (second dt))
      else if c = CHR ''%'' then ''%''
      else [CHR ''%'', c])"

fun strftime :: "datetime \<Rightarrow> string \<Rightarrow> string" where
  "strftime dt (c # d # fmt) =
     (if c = CHR ''%'' then directive dt d @ strftime dt fmt else c # strftime dt (d # fmt))"
| "strftime dt fmt = fmt"

section \<open>get\_time\_info\<close>

text \<open>
  A \<open>dict\<close> of text keys and text values, in insertion order. Subscripting with a key
  that is absent raises \<open>KeyError\<close>.
\<close>

type_synonym time_info = "(string \<times> string) list"

datatype exn = KeyError string | SystemExit int

definition getitem :: "time_info \<Rightarrow> string \<Rightarrow> exn + string" where
  "getitem d k = (case map_of d k of None \<Rightarrow> Inl (KeyError k) | Some v \<Rightarrow> Inr v)"

definition get_time_info :: "clock \<Rightarrow> time_info \<times> clock" where
  "get_time_info clk =
     (let (now, clk') = datetime_now clk in
      ([(''year'', strftime now ''%Y''),
        (''year_short'', strftime now ''%y''),
        (''month_year'', strftime now ''%B %Y''),
        (''quarter'', ''Q'' @ str_int ((month now - 1) div 3 + 1) @ '' '' @ str_int (year now)),
        (''date_iso'', strftime now ''%Y-%m-%d''),
        (''search_suffix'', strftime now ''%Y''),
        (''full_datetime'', strftime now ''%Y-%m-%d %H:%M:%S'')],
       clk'))"

section \<open>Standard output and exceptions\<close>

text \<open>
  A statement takes the text written to standard output so far and returns it extended,
  with the exception it raised, if any. A block runs its statements in order and stops at
  the first exception, keeping what was written before it.
\<close>

type_synonym stdout = string

type_synonym stmt = "stdout \<Rightarrow> stdout \<times> exn option"

text \<open>\<open>print(x)\<close>: evaluating the argument may raise; otherwise the text and a newline are written.\<close>

definition print :: "exn + string \<Rightarrow> stmt" where
  "print x out = (case x of Inl e \<Rightarrow> (out, Some e) | Inr s \<Rightarrow> (out @ s @ ''\<newline>'', None))"

definition sys_exit :: "int \<Rightarrow> stmt" where
  "sys_exit n out = (out, Some (SystemExit n))"

fun block :: "stmt list \<Rightarrow> stmt" where
  "block [] out = (out, None)"
| "block (s # ss) out =
     (case s out of (out', None) \<Rightarrow> block ss out' | (out', Some e) \<Rightarrow> (out', Some e))"

text \<open>An f-string with one replacement field: the text before it, the field, the text after it.\<close>

definition fstring :: "string \<Rightarrow> exn + string \<Rightarrow> string \<Rightarrow> exn + string" where
  "fstring pre x post = (case x of Inl e \<Rightarrow> Inl e | Inr s \<Rightarrow> Inr (pre @ s @ post))"

section \<open>print\_search\_tips\<close>

text \<open>The bullet U+2022, as the three bytes of its UTF-8 encoding.\<close>

definition bullet :: string where
  "bullet = [CHR 0xE2, CHR 0x80, CHR 0xA2]"

definition print_search_tips :: "time_info \<Rightarrow> stmt" where
  "print_search_tips time_info = block
     [print (Inr (replicate 60 (CHR ''=''))),
      print (Inr ''TIME-AWARE SEARCH TIPS''),
      print (Inr (replicate 60 (CHR ''=''))),
      print (fstring ''\<newline>Current Year: '' (getitem time_info ''year'') []),
      print (fstring ''Current Quarter: '' (getitem time_info ''quarter'') []),
      print (fstring ''Current Date: '' (getitem time_info ''date_iso'') []),
      print (Inr []),
      print (Inr ''SEARCH QUERY EXAMPLES:''),
      print (Inr (replicate 40 (CHR ''-''))),
      print (fstring ''  \"FastAPI JWT authentication '' (getitem time_info ''year'') ''\"''),
      print (fstring ''  \"React useEffect best practices '' (getitem time_info ''year'') ''\"''),
      print (fstring ''  \"Python security vulnerabilities '' (getitem time_info ''year'') ''\"''),
      print (fstring ''  \"Next.js 14 breaking changes '' (getitem time_info ''year'') ''\"''),
      print (Inr []),
      print (Inr ''WHY ADD THE YEAR?''),
      print (Inr (replicate 40 (CHR ''-''))),
      print (Inr (''  '' @ bullet @ '' Libraries and frameworks update frequently'')),
      print (Inr (''  '' @ bullet @ '' Best practices evolve over time'')),
      print (Inr (''  '' @ bullet @ '' Security recommendations change'')),
      print (Inr (''  '' @ bullet @ '' Adding the year filters out outdated content'')),
      print (Inr (''  '' @ bullet @ '' Results prioritize recent tutorials and docs'')),
      print (Inr []),
      print (Inr ''SEARCH SUFFIXES TO TRY:''),
      print (Inr (replicate 40 (CHR ''-''))),
      print (fstring ''  \"[topic] '' (getitem time_info ''year'')
               ''\"          - General current info''),
      print (fstring ''  \"[topic] latest '' (getitem time_info ''year'')
               ''\"   - Emphasize recency''),
      print (fstring ''  \"[topic] best practices '' (getitem time_info ''year'')
               ''\" - Current standards''),
      print (fstring ''  \"[topic] changelog '' (getitem time_info ''year'')
               ''\" - Recent changes''),
      print (Inr [])]"

section \<open>json.dumps and json.loads\<close>

text \<open>
  In this section a character is a code point below 256. \<open>json.dumps\<close> runs with
  \<open>ensure_ascii\<close>: inside the quotes a character from the space to the tilde stands for
  itself, except the quote and the backslash; every other one is escaped.
\<close>

definition backslash :: char where
  "backslash = CHR 0x5C"

definition hex_digit :: "nat \<Rightarrow> char" where
  "hex_digit d = ''0123456789abcdef'' ! (d mod 16)"

definition escape_char :: "char \<Rightarrow> string" where
  "escape_char c =
     (if c = CHR 0x22 then [backslash, CHR 0x22]
      else if c = backslash then [backslash, backslash]
      else if c = CHR 0x0A then [backslash, CHR ''n'']
      else if c = CHR 0x0D then [backslash, CHR ''r'']
      else if c = CHR 0x09 then [backslash, CHR ''t'']
      else if c = CHR 0x08 then [backslash, CHR ''b'']
      else if c = CHR 0x0C then [backslash, CHR ''f'']
      else if 32 \<le> (of_char c :: nat) \<and> (of_char c :: nat) \<le> 126 then [c]
      else [backslash, CHR ''u'', CHR ''0'', CHR ''0'',
            hex_digit ((of_char c :: nat) div 16), hex_digit ((of_char c :: nat) mod 16)])"

definition encode_basestring_ascii :: "string \<Rightarrow> string" where
  "encode_basestring_ascii s = CHR 0x22 # concat (map escape_char s) @ [CHR 0x22]"

fun join :: "string \<Rightarrow> string list \<Rightarrow> string" where
  "join sep [] = []"
| "join sep [x] = x"
| "join sep (x # y # xs) = x @ sep @ join sep (y # xs)"

text \<open>
  \<open>json.dumps(d, indent=n)\<close> for a \<open>dict\<close> of text: the empty one is \<open>{}\<close>; otherwise
  each item is on a line of its own after \<open>n\<close> spaces, a comma between items, a colon
  and a space between key and value, and the closing brace on the last line.
\<close>

definition json_dumps :: "time_info \<Rightarrow> nat \<Rightarrow> string" where
  "json_dumps d indent =
     (if d = [] then ''{}''
      else
        (let newline_indent = CHR 0x0A # replicate indent (CHR '' '');
             item_separator = '','' @ newline_indent
         in ''{'' @ newline_indent
            @ join item_separator
                (map (\<lambda>(k, v). encode_basestring_ascii k @ '': '' @ encode_basestring_ascii v) d)
            @ ''\<newline>'' @ ''}''))"

text \<open>
  \<open>json.loads\<close> on documents that are one object whose values are text, which is what
  the script writes; any other document is outside the model (\<open>None\<close>). The scanner
  splits the document into tokens, decoding the escapes of each string; the parser reads
  the members. The result lists the members in document order, which for distinct keys
  is the \<open>dict\<close> that \<open>json.loads\<close> returns.
\<close>

datatype token = LBrace | RBrace | Colon | Comma | Str string

definition hex_val :: "char \<Rightarrow> nat option" where
  "hex_val c =
     map_of (zip ''0123456789abcdefABCDEF''
                 [0, 1, 2, 3, 4, 5, 6, 7, 8, 9, 10, 11, 12, 13, 14, 15, 10, 11, 12, 13, 14, 15]) c"

definition code_point :: "char \<Rightarrow> char \<Rightarrow> char \<Rightarrow> char \<Rightarrow> char option" where
  "code_point a b c d =
     (case (hex_val a, hex_val b, hex_val c, hex_val d) of
        (Some h3, Some h2, Some h1, Some h0) \<Rightarrow>
          (let n = ((h3 * 16 + h2) * 16 + h1) * 16 + h0
           in if n < 256 then Some (char_of n) else None)
      | _ \<Rightarrow> None)"

definition unescape :: "char \<Rightarrow> char option" where
  "unescape e =
     (if e = CHR 0x22 then Some (CHR 0x22)
      else if e = backslash then Some backslash
      else if e = CHR ''/'' then Some (CHR ''/'')
      else if e = CHR ''b'' then Some (CHR 0x08)
      else if e = CHR ''f'' then Some (CHR 0x0C)
      else if e = CHR ''n'' then Some (CHR 0x0A)
      else if e = CHR ''r'' then Some (CHR 0x0D)
      else if e = CHR ''t'' then Some (CHR 0x09)
      else None)"

definition is_whitespace :: "char \<Rightarrow> bool" where
  "is_whitespace c = (c = CHR '' '' \<or> c = CHR 0x09 \<or> c = CHR 0x0A \<or> c = CHR 0x0D)"

definition cons_token :: "token \<Rightarrow> token list option \<Rightarrow> token list option" where
  "cons_token t r = (case r of None \<Rightarrow> None | Some ts \<Rightarrow> Some (t # ts))"

fun scan :: "string \<Rightarrow> token list option"
  and scanstring :: "string \<Rightarrow> string \<Rightarrow> token list option"
where
  "scan [] = Some []"
| "scan (c # cs) =
     (if is_whitespace c then scan cs
      else if c = CHR ''{'' then cons_token LBrace (scan cs)
      else if c = CHR ''}'' then cons_token RBrace (scan cs)
      else if c = CHR '':'' then cons_token Colon (scan cs)
      else if c = CHR '','' then cons_token Comma (scan cs)
      else if c = CHR 0x22 then scanstring [] cs
      else None)"
| "scanstring acc [] = None"
| "scanstring acc (c # cs) =
     (if c = CHR 0x22 then cons_token (Str (rev acc)) (scan cs)
      else if c = backslash then
        (case cs of
           [] \<Rightarrow> None
         | e # cs' \<Rightarrow>
             if e = CHR ''u'' then
               (case cs' of
                  h3 # h2 # h1 # h0 # cs'' \<Rightarrow>
                    (case code_point h3 h2 h1 h0 of
                       None \<Rightarrow> None
                     | Some u \<Rightarrow> scanstring (u # acc) cs'')
                | _ \<Rightarrow> None)
             else
               (case unescape e of
                  None \<Rightarrow> None
                | Some u \<Rightarrow> scanstring (u # acc) cs'))
      else if (of_char c :: nat) < 32 then None
      else scanstring (c # acc) cs)"

fun parse_members :: "token list \<Rightarrow> time_info option" where
  "parse_members [Str k, Colon, Str v, RBrace] = Some [(k, v)]"
| "parse_members (Str k # Colon # Str v # Comma # ts) =
     (case parse_members ts of None \<Rightarrow> None | Some kvs \<Rightarrow> Some ((k, v) # kvs))"
| "parse_members ts = None"

definition json_loads :: "string \<Rightarrow> time_info option" where
  "json_loads s =
     (case scan s of
        None \<Rightarrow> None
      | Some ts \<Rightarrow>
          (case ts of
             [LBrace, RBrace] \<Rightarrow> Some []
           | LBrace # ms \<Rightarrow> parse_members ms
           | _ \<Rightarrow> None))"

section \<open>main\<close>

text \<open>The module's docstring, which \<open>--help\<close> prints first.\<close>

definition doc :: string where
  "doc = ''\<newline>Time-aware search utility for external research.\<newline>\<newline>This script provides current date/time information in formats useful for\<newline>constructing search queries that prioritize recent and relevant results.\<newline>\<newline>Usage:\<newline>    python get_current_time.py           # Get all formats\<newline>    python get_current_time.py --year    # Just the year\<newline>    python get_current_time.py --search  # Search-friendly format\<newline>''"

text \<open>\<open>argv\<close> is \<open>sys.argv\<close>: the script's name first, then the command-line tokens;
  \<open>ul\<close> is the interpreter's lowercasing of text outside ASCII.\<close>

definition main :: "(string \<Rightarrow> string) \<Rightarrow> clock \<Rightarrow> string list \<Rightarrow> stmt" where
  "main ul clk argv =
     (let (time_info, clk') = get_time_info clk in
      if length argv > 1 then
        (let arg = lower ul (argv ! 1) in
         if arg \<in> set [''--year'', ''-y''] then
           print (getitem time_info ''year'')
         else if arg \<in> set [''--search'', ''-s''] then
           print (getitem time_info ''search_suffix'')
         else if arg \<in> set [''--quarter'', ''-q''] then
           print (getitem time_info ''quarter'')
         else if arg \<in> set [''--date'', ''-d''] then
           print (getitem time_info ''date_iso'')
         else if arg \<in> set [''--json'', ''-j''] then
           print (Inr (json_dumps time_info 2))
         else if arg \<in> set [''--tips'', ''-t''] then
           print_search_tips time_info
         else if arg \<in> set [''--help'', ''-h''] then
           block
             [print (Inr doc),
              print (Inr ''\<newline>Options:''),
              print (Inr ''  --year, -y     Just the current year (e.g., 2026)''),
              print (Inr ''  --search, -s   Search-friendly suffix''),
              print (Inr ''  --quarter, -q  Current quarter (e.g., Q1 2026)''),
              print (Inr ''  --date, -d     ISO date (e.g., 2026-02-08)''),
              print (Inr ''  --json, -j     All formats as JSON''),
              print (Inr ''  --tips, -t     Print search tips with examples''),
              print (Inr ''  --help, -h     Show this help message'')]
         else
           block
             [print (Inr (''Unknown argument: '' @ arg)),
              print (Inr ''Use --help for usage information''),
              sys_exit 1])
      else print_search_tips time_info)"

text \<open>
  The exit status of the interpreter: 0 when the script runs to its end, the argument of
  \<open>sys.exit\<close>, and 1 for any other exception that nothing catches.
\<close>

fun exit_status :: "exn option \<Rightarrow> int" where
  "exit_status None = 0"
| "exit_status (Some (SystemExit n)) = n"
| "exit_status (Some (KeyError k)) = 1"

text \<open>One run of the script: what it wrote to standard output, and its exit status.\<close>

definition run_script :: "(string \<Rightarrow> string) \<Rightarrow> clock \<Rightarrow> string list \<Rightarrow> stdout \<times> int" where
  "run_script ul clk argv = (case main ul clk argv [] of (out, e) \<Rightarrow> (out, exit_status e))"

text \<open>The flags of the dispatch table, each with its alias.\<close>

definition flags :: "(string \<times> string) list" where
  "flags = [(''--year'', ''-y''), (''--search'', ''-s''), (''--quarter'', ''-q''),
            (''--date'', ''-d''), (''--json'', ''-j''), (''--tips'', ''-t''), (''--help'', ''-h'')]"

definition recognized :: "string \<Rightarrow> bool" where
  "recognized arg = (arg \<in> set (map fst flags) \<union> set (map snd flags))"

section \<open>Auxiliary notions for json.dumps and json.loads\<close>

text \<open>One item of the object as \<open>json.dumps\<close> writes it, and the tokens of the members.\<close>

definition item :: "string \<times> string \<Rightarrow> string" where
  "item kv = encode_basestring_ascii (fst kv) @ '': '' @ encode_basestring_ascii (snd kv)"

fun member_tokens :: "time_info \<Rightarrow> token list" where
  "member_tokens [] = []"
| "member_tokens [(k, v)] = [Str k, Colon, Str v]"
| "member_tokens ((k, v) # kv # kvs) = Str k # Colon # Str v # Comma # member_tokens (kv # kvs)"

text \<open>Text that \<open>json.dumps\<close> writes between the quotes as it is.\<close>

definition plain_char :: "char \<Rightarrow> bool" where
  "plain_char c =
     (32 \<le> (of_char c :: nat) \<and> (of_char c :: nat) \<le> 126 \<and> c \<noteq> CHR 0x22 \<and> c \<noteq> backslash)"

definition plain :: "string \<Rightarrow> bool" where
  "plain s = list_all plain_char s"

section \<open>An instant and two clocks for the concrete scenarios\<close>

text \<open>The instant 2026-02-08 14:30:00, a clock that always returns it, and a clock whose
  sixth read returns it and whose every other read returns a later instant.\<close>

definition instant_2026 :: datetime where
  "instant_2026 =
     \<lparr>year = 2026, month = 2, day = 8, hour = 14, minute = 30, second = 0, microsecond = 0\<rparr>"

definition clock_2026 :: clock where
  "clock_2026 = \<lparr>reading = (\<lambda>n. instant_2026), reads = 0\<rparr>"

text \<open>
  An instance of the lowercasing outside ASCII for the examples: the capital letters of the
  Latin-1 supplement (U+00C0 to U+00DE without the multiplication sign, in UTF-8 the byte
  C3 and a byte from 80 to 9E without 97) go to their small letters, 32 code points on.
\<close>

fun latin1_lower :: "string \<Rightarrow> string" where
  "latin1_lower (c # d # cs) =
     (if c = CHR 0xC3 \<and> 128 \<le> (of_char d :: nat) \<and> (of_char d :: nat) \<le> 158 \<and> d \<noteq> CHR 0x97
      then c # char_of ((of_char d :: nat) + 32) # latin1_lower cs
      else lower_char c # latin1_lower (d # cs))"
| "latin1_lower cs = map lower_char cs"

definition clock_moving :: clock where
  "clock_moving =
     \<lparr>reading = (\<lambda>n. if n = 5 then instant_2026 else instant_2026\<lparr>year := 2027, month := 11\<rparr>),
      reads = 5\<rparr>"

section \<open>Evaluation lemmas\<close>

lemmas str_nat_numeral =
  str_nat.simps [of "numeral k" for k] str_nat.simps [of 0] str_nat.simps [of 1]
  str_nat.simps [of "Suc 0"]

lemma str_int_small: "str_int 1 = ''1''" "str_int 2 = ''2''" "str_int 3 = ''3''" "str_int 4 = ''4''"
  by (simp_all add: str_int_def str_nat_numeral digit_char_def)

lemma str_int_2026: "str_int 2026 = ''2026''"
  by (simp add: str_int_def str_nat_numeral digit_char_def)

lemma strftime_date_2026: "strftime instant_2026 ''%Y-%m-%d'' = ''2026-02-08''"
  by (simp add: directive_def instant_2026_def str_int_def str_nat_numeral digit_char_def zfill_def)

lemma valid_instant_2026: "valid_datetime instant_2026"
  by (simp add: valid_datetime_def instant_2026_def days_in_month_def is_leap_def)

lemma lower_bogus: "lower latin1_lower ''--Bogus'' = ''--bogus''"
  by (simp add: lower_def is_ascii_def lower_char_def)

lemma not_recognized_bogus: "\<not> recognized ''--bogus''"
  by (simp add: recognized_def flags_def)

section \<open>The fields of get\_time\_info\<close>

text \<open>One call reads the clock once; every field is computed from that reading.\<close>

lemma get_time_info_eq:
  "get_time_info clk =
     ([(''year'', str_int (year (reading clk (reads clk)))),
       (''year_short'', strftime (reading clk (reads clk)) ''%y''),
       (''month_year'', strftime (reading clk (reads clk)) ''%B %Y''),
       (''quarter'', ''Q'' @ str_int ((month (reading clk (reads clk)) - 1) div 3 + 1) @ '' ''
            @ str_int (year (reading clk (reads clk)))),
       (''date_iso'', strftime (reading clk (reads clk)) ''%Y-%m-%d''),
       (''search_suffix'', str_int (year (reading clk (reads clk)))),
       (''full_datetime'', strftime (reading clk (reads clk)) ''%Y-%m-%d %H:%M:%S'')],
      clk\<lparr>reads := Suc (reads clk)\<rparr>)"
  by (simp add: get_time_info_def datetime_now_def directive_def)

lemma getitem_year:
  "getitem (fst (get_time_info clk)) ''year'' = Inr (str_int (year (reading clk (reads clk))))"
  by (simp add: get_time_info_eq getitem_def)

lemma getitem_search_suffix:
  "getitem (fst (get_time_info clk)) ''search_suffix''
     = Inr (str_int (year (reading clk (reads clk))))"
  by (simp add: get_time_info_eq getitem_def)

lemma getitem_quarter:
  "getitem (fst (get_time_info clk)) ''quarter''
     = Inr (''Q'' @ str_int ((month (reading clk (reads clk)) - 1) div 3 + 1) @ '' ''
            @ str_int (year (reading clk (reads clk))))"
  by (simp add: get_time_info_eq getitem_def)

lemma getitem_date_iso:
  "getitem (fst (get_time_info clk)) ''date_iso''
     = Inr (strftime (reading clk (reads clk)) ''%Y-%m-%d'')"
  by (simp add: get_time_info_eq getitem_def)

lemma quarter_number_range:
  assumes "1 \<le> (m::int)" "m \<le> 12"
  shows "(m - 1) div 3 + 1 \<in> {1, 2, 3, 4}"
proof -
  have "0 \<le> (m - 1) div 3" "(m - 1) div 3 \<le> 3" using assms by auto
  then show ?thesis by auto
qed

text \<open>
  C2. For every instant the clock can return (a valid \<open>datetime\<close>), the quarter field is
  \<open>Q\<close>, the number \<open>floor((month - 1) / 3) + 1\<close>, a space and the year; that number is one
  of 1, 2, 3, 4, so the field is one of \<open>Q1 Y\<close>, \<open>Q2 Y\<close>, \<open>Q3 Y\<close>, \<open>Q4 Y\<close> with \<open>Y\<close> the
  instant's year.
\<close>

theorem quarter_field:
  assumes "valid_datetime (reading clk (reads clk))"
  shows "getitem (fst (get_time_info clk)) ''quarter''
           = Inr (''Q'' @ str_int ((month (reading clk (reads clk)) - 1) div 3 + 1) @ '' ''
                  @ str_int (year (reading clk (reads clk))))
         \<and> (month (reading clk (reads clk)) - 1) div 3 + 1 \<in> {1, 2, 3, 4}
         \<and> getitem (fst (get_time_info clk)) ''quarter''
             \<in> {Inr (''Q1 '' @ str_int (year (reading clk (reads clk)))),
                Inr (''Q2 '' @ str_int (year (reading clk (reads clk)))),
                Inr (''Q3 '' @ str_int (year (reading clk (reads clk)))),
                Inr (''Q4 '' @ str_int (year (reading clk (reads clk))))}"
proof -
  let ?now = "reading clk (reads clk)"
  have m: "1 \<le> month ?now" "month ?now \<le> 12"
    using assms by (simp_all add: valid_datetime_def)
  have "(month ?now - 1) div 3 + 1 \<in> {1, 2, 3, 4}"
    by (rule quarter_number_range [OF m])
  then show ?thesis
    by (auto simp: getitem_quarter str_int_small)
qed

theorem quarter_field_witness:
  "valid_datetime (reading clock_2026 (reads clock_2026))
   \<and> getitem (fst (get_time_info clock_2026)) ''quarter'' = Inr ''Q1 2026''"
  using quarter_field [of clock_2026] valid_instant_2026
  by (simp add: clock_2026_def instant_2026_def str_int_small str_int_2026)

text \<open>
  C4. The field builder is deterministic in the captured instant: two evaluations whose
  clock read returns the same instant yield the same seven fields, whatever the clock
  returns at any other read; and one evaluation reads the clock exactly once, so no field
  comes from a second reading.
\<close>

theorem time_fields_deterministic:
  assumes "reading clk (reads clk) = reading clk' (reads clk')"
  shows "fst (get_time_info clk) = fst (get_time_info clk')
         \<and> reads (snd (get_time_info clk)) = Suc (reads clk)
         \<and> reading (snd (get_time_info clk)) = reading clk"
  using assms by (simp add: get_time_info_eq)

theorem time_fields_deterministic_witness:
  "reading clock_2026 (reads clock_2026) = reading clock_moving (reads clock_moving)
   \<and> reading clock_2026 6 \<noteq> reading clock_moving 6
   \<and> fst (get_time_info clock_2026) = fst (get_time_info clock_moving)
   \<and> reads (snd (get_time_info clock_2026)) = 1"
proof -
  have same: "reading clock_2026 (reads clock_2026) = reading clock_moving (reads clock_moving)"
    by (simp add: clock_2026_def clock_moving_def)
  have differ: "reading clock_2026 6 \<noteq> reading clock_moving 6"
    by (simp add: clock_2026_def clock_moving_def instant_2026_def)
  from time_fields_deterministic [OF same] same differ show ?thesis
    by (simp add: clock_2026_def)
qed

text \<open>
  C5. For every captured instant, the \<open>search_suffix\<close> field equals the \<open>year\<close> field
  (and both are present).
\<close>

theorem search_suffix_is_year:
  "getitem (fst (get_time_info clk)) ''search_suffix'' = getitem (fst (get_time_info clk)) ''year''
   \<and> (\<exists>v. getitem (fst (get_time_info clk)) ''year'' = Inr v)"
  by (simp add: getitem_year getitem_search_suffix)

theorem search_suffix_is_year_witness:
  "getitem (fst (get_time_info clock_2026)) ''search_suffix''
     = getitem (fst (get_time_info clock_2026)) ''year''
   \<and> getitem (fst (get_time_info clock_2026)) ''year'' = Inr ''2026''"
  using search_suffix_is_year [of clock_2026]
  by (simp add: getitem_year clock_2026_def instant_2026_def str_int_2026)

section \<open>The dispatcher\<close>

text \<open>\<open>main\<close> with the table of fields that its one call of \<open>get_time_info\<close> returned.\<close>

lemma main_eq:
  "main ul clk argv =
     (if length argv > 1 then
        (let arg = lower ul (argv ! 1) in
         if arg \<in> set [''--year'', ''-y''] then
           print (getitem (fst (get_time_info clk)) ''year'')
         else if arg \<in> set [''--search'', ''-s''] then
           print (getitem (fst (get_time_info clk)) ''search_suffix'')
         else if arg \<in> set [''--quarter'', ''-q''] then
           print (getitem (fst (get_time_info clk)) ''quarter'')
         else if arg \<in> set [''--date'', ''-d''] then
           print (getitem (fst (get_time_info clk)) ''date_iso'')
         else if arg \<in> set [''--json'', ''-j''] then
           print (Inr (json_dumps (fst (get_time_info clk)) 2))
         else if arg \<in> set [''--tips'', ''-t''] then
           print_search_tips (fst (get_time_info clk))
         else if arg \<in> set [''--help'', ''-h''] then
           block
             [print (Inr doc),
              print (Inr ''\<newline>Options:''),
              print (Inr ''  --year, -y     Just the current year (e.g., 2026)''),
              print (Inr ''  --search, -s   Search-friendly suffix''),
              print (Inr ''  --quarter, -q  Current quarter (e.g., Q1 2026)''),
              print (Inr ''  --date, -d     ISO date (e.g., 2026-02-08)''),
              print (Inr ''  --json, -j     All formats as JSON''),
              print (Inr ''  --tips, -t     Print search tips with examples''),
              print (Inr ''  --help, -h     Show this help message'')]
         else
           block
             [print (Inr (''Unknown argument: '' @ arg)),
              print (Inr ''Use --help for usage information''),
              sys_exit 1])
      else print_search_tips (fst (get_time_info clk)))"
  by (simp add: main_def Let_def split: prod.splits)

lemma run_script_main:
  "run_script ul clk argv = (fst (main ul clk argv []), exit_status (snd (main ul clk argv [])))"
  by (simp add: run_script_def split: prod.splits)

lemma run_script_status: "snd (run_script ul clk argv) = exit_status (snd (main ul clk argv []))"
  by (simp add: run_script_main)

lemma main_unknown:
  assumes "\<not> recognized (lower ul t)"
  shows "main ul clk (p # t # rest) out =
           (out @ ''Unknown argument: '' @ lower ul t @ ''\<newline>''
                @ ''Use --help for usage information\<newline>'',
            Some (SystemExit 1))"
  using assms by (simp add: main_eq recognized_def flags_def print_def sys_exit_def)

lemma tips_ok: "snd (print_search_tips (fst (get_time_info clk)) out) = None"
  by (simp add: print_search_tips_def getitem_year getitem_quarter getitem_date_iso print_def
        fstring_def)

lemma main_recognized:
  assumes "recognized (lower ul t)"
  shows "snd (main ul clk (p # t # rest) out) = None"
  using assms
  by (auto simp: main_eq recognized_def flags_def print_def tips_ok
        getitem_year getitem_quarter getitem_date_iso getitem_search_suffix)

lemma main_no_argument:
  assumes "length argv \<le> 1"
  shows "main ul clk argv = print_search_tips (fst (get_time_info clk))"
  using assms by (simp add: main_eq)

lemma recognized_iff:
  "recognized arg \<longleftrightarrow>
     arg \<in> {''--year'', ''-y'', ''--search'', ''-s'', ''--quarter'', ''-q'', ''--date'', ''-d'',
            ''--json'', ''-j'', ''--tips'', ''-t'', ''--help'', ''-h''}"
  unfolding recognized_def flags_def by auto

lemma status_by_branch:
  "snd (run_script ul clk argv)
     = (if length argv > 1 \<and> \<not> recognized (lower ul (argv ! 1)) then 1 else 0)"
proof (cases "length argv > 1")
  case False
  then have "main ul clk argv = print_search_tips (fst (get_time_info clk))"
    by (simp add: main_no_argument)
  with False show ?thesis
    by (simp add: run_script_status tips_ok)
next
  case True
  then obtain p t rest where argv: "argv = p # t # rest"
    by (cases argv; cases "tl argv") auto
  show ?thesis
  proof (cases "recognized (lower ul t)")
    case True
    then show ?thesis
      by (simp add: argv run_script_status main_recognized)
  next
    case False
    then show ?thesis
      by (simp add: argv run_script_status main_unknown)
  qed
qed

text \<open>The whole tips block, for a table that has the three entries it interpolates.\<close>

lemma print_search_tips_text:
  assumes "getitem ti ''year'' = Inr y" and "getitem ti ''quarter'' = Inr q"
    and "getitem ti ''date_iso'' = Inr d"
  shows "print_search_tips ti out =
    (out @ replicate 60 (CHR ''='') @ ''\<newline>''
       @ ''TIME-AWARE SEARCH TIPS\<newline>''
       @ replicate 60 (CHR ''='') @ ''\<newline>''
       @ ''\<newline>Current Year: '' @ y @ ''\<newline>''
       @ ''Current Quarter: '' @ q @ ''\<newline>''
       @ ''Current Date: '' @ d @ ''\<newline>''
       @ ''\<newline>''
       @ ''SEARCH QUERY EXAMPLES:\<newline>''
       @ replicate 40 (CHR ''-'') @ ''\<newline>''
       @ ''  \"FastAPI JWT authentication '' @ y @ ''\"\<newline>''
       @ ''  \"React useEffect best practices '' @ y @ ''\"\<newline>''
       @ ''  \"Python security vulnerabilities '' @ y @ ''\"\<newline>''
       @ ''  \"Next.js 14 breaking changes '' @ y @ ''\"\<newline>''
       @ ''\<newline>''
       @ ''WHY ADD THE YEAR?\<newline>''
       @ replicate 40 (CHR ''-'') @ ''\<newline>''
       @ ''  '' @ bullet @ '' Libraries and frameworks update frequently\<newline>''
       @ ''  '' @ bullet @ '' Best practices evolve over time\<newline>''
       @ ''  '' @ bullet @ '' Security recommendations change\<newline>''
       @ ''  '' @ bullet @ '' Adding the year filters out outdated content\<newline>''
       @ ''  '' @ bullet @ '' Results prioritize recent tutorials and docs\<newline>''
       @ ''\<newline>''
       @ ''SEARCH SUFFIXES TO TRY:\<newline>''
       @ replicate 40 (CHR ''-'') @ ''\<newline>''
       @ ''  \"[topic] '' @ y @ ''\"          - General current info\<newline>''
       @ ''  \"[topic] latest '' @ y @ ''\"   - Emphasize recency\<newline>''
       @ ''  \"[topic] best practices '' @ y @ ''\" - Current standards\<newline>''
       @ ''  \"[topic] changelog '' @ y @ ''\" - Recent changes\<newline>''
       @ ''\<newline>'',
     None)"
  by (simp add: print_search_tips_def assms print_def fstring_def)

text \<open>
  C9. For every token \<open>t\<close> that is not recognized, the run writes exactly the two lines
  \<open>Unknown argument:\<close> with the lowercased token, and \<open>Use --help for usage information\<close>,
  and ends with exit status 1.
\<close>

theorem unknown_argument_two_lines:
  assumes "\<not> recognized (lower ul t)"
  shows "run_script ul clk (p # t # rest) =
           (''Unknown argument: '' @ lower ul t @ ''\<newline>''
              @ ''Use --help for usage information\<newline>'', 1)"
  by (simp add: run_script_def main_unknown [OF assms])

text \<open>With \<open>--Bogus\<close> the line names \<open>--bogus\<close>; with a capital E acute in the token (the bytes
  C3 89) it names the small one (C3 A9).\<close>

theorem unknown_argument_two_lines_witness:
  "\<not> recognized (lower latin1_lower ''--Bogus'')
   \<and> run_script latin1_lower clock_2026 [''get_current_time.py'', ''--Bogus'']
       = (''Unknown argument: --bogus\<newline>Use --help for usage information\<newline>'', 1)
   \<and> \<not> recognized (lower latin1_lower ([CHR ''-'', CHR ''-'', CHR 0xC3, CHR 0x89, CHR ''C'', CHR ''O'', CHR ''L'', CHR ''E'']))
   \<and> run_script latin1_lower clock_2026
         [''get_current_time.py'', [CHR ''-'', CHR ''-'', CHR 0xC3, CHR 0x89, CHR ''C'', CHR ''O'', CHR ''L'', CHR ''E'']]
       = (''Unknown argument: --'' @ [CHR 0xC3, CHR 0xA9]
            @ ''cole\<newline>Use --help for usage information\<newline>'', 1)"
proof -
  have unknown: "\<not> recognized (lower latin1_lower ''--Bogus'')"
    by (simp add: lower_bogus not_recognized_bogus)
  have ecole: "lower latin1_lower ([CHR ''-'', CHR ''-'', CHR 0xC3, CHR 0x89, CHR ''C'', CHR ''O'', CHR ''L'', CHR ''E''])
                 = [CHR ''-'', CHR ''-'', CHR 0xC3, CHR 0xA9, CHR ''c'', CHR ''o'', CHR ''l'', CHR ''e'']"
    by code_simp
  have unknown': "\<not> recognized (lower latin1_lower ([CHR ''-'', CHR ''-'', CHR 0xC3, CHR 0x89, CHR ''C'', CHR ''O'', CHR ''L'', CHR ''E'']))"
    unfolding ecole by (simp add: recognized_def flags_def)
  from unknown_argument_two_lines
         [where ul = latin1_lower and t = "''--Bogus''" and clk = clock_2026
            and p = "''get_current_time.py''" and rest = "[]", OF unknown]
       unknown_argument_two_lines
         [where ul = latin1_lower and t = "[CHR ''-'', CHR ''-'', CHR 0xC3, CHR 0x89, CHR ''C'', CHR ''O'', CHR ''L'', CHR ''E'']"
            and clk = clock_2026 and p = "''get_current_time.py''" and rest = "[]", OF unknown']
       unknown unknown'
  show ?thesis by (simp add: lower_bogus ecole)
qed

text \<open>
  C1, as stated, fails in its second part: with the token \<open>--bogus\<close> the run does not print
  exactly \<open>Unknown argument: --bogus\<close>; a second line follows it.
\<close>

theorem unknown_argument_exactly_one_line_counterexample:
  "\<not> recognized (lower latin1_lower ''--bogus'')
   \<and> run_script latin1_lower clock_2026 [''get_current_time.py'', ''--bogus'']
       = (''Unknown argument: --bogus\<newline>Use --help for usage information\<newline>'', 1)
   \<and> fst (run_script latin1_lower clock_2026 [''get_current_time.py'', ''--bogus''])
       \<noteq> ''Unknown argument: --bogus\<newline>''
   \<and> fst (run_script latin1_lower clock_2026 [''get_current_time.py'', ''--bogus''])
       \<noteq> ''Unknown argument: --bogus''"
proof -
  have low: "lower latin1_lower ''--bogus'' = ''--bogus''"
    by (simp add: lower_def is_ascii_def lower_char_def)
  have unknown: "\<not> recognized (lower latin1_lower ''--bogus'')"
    by (simp add: low not_recognized_bogus)
  have out: "run_script latin1_lower clock_2026 [''get_current_time.py'', ''--bogus'']
       = (''Unknown argument: --bogus\<newline>Use --help for usage information\<newline>'', 1)"
    by (simp add: run_script_def main_unknown [OF unknown] low)
  from unknown show ?thesis
    unfolding out by simp
qed

text \<open>
  C1, amended. For every token that is not recognized, the output starts with the line
  \<open>Unknown argument:\<close> naming the token (lowercased, as the dispatcher reads it), and the
  exit status is not zero; with the token \<open>--bogus\<close> the run prints
  \<open>Unknown argument: --bogus\<close>, then the line \<open>Use --help for usage information\<close>, and
  ends with status 1.
\<close>

theorem unknown_argument_first_line:
  assumes "\<not> recognized (lower ul t)"
  shows "prefix (''Unknown argument: '' @ lower ul t @ ''\<newline>'')
           (fst (run_script ul clk (p # t # rest)))
         \<and> snd (run_script ul clk (p # t # rest)) \<noteq> 0
         \<and> run_script ul clk (p # ''--bogus'' # rest)
             = (''Unknown argument: --bogus\<newline>Use --help for usage information\<newline>'', 1)"
proof -
  have low: "lower ul ''--bogus'' = ''--bogus''"
    by (simp add: lower_def is_ascii_def lower_char_def)
  have "\<not> recognized (lower ul ''--bogus'')"
    by (simp add: low not_recognized_bogus)
  then have "run_script ul clk (p # ''--bogus'' # rest)
             = (''Unknown argument: --bogus\<newline>Use --help for usage information\<newline>'', 1)"
    by (simp add: run_script_def main_unknown low)
  then show ?thesis
    by (simp add: run_script_def main_unknown [OF assms])
qed

theorem unknown_argument_first_line_witness:
  "\<not> recognized (lower latin1_lower ''--Nope'')
   \<and> prefix ''Unknown argument: --nope\<newline>''
        (fst (run_script latin1_lower clock_2026 [''get_current_time.py'', ''--Nope'']))
   \<and> snd (run_script latin1_lower clock_2026 [''get_current_time.py'', ''--Nope'']) \<noteq> 0
   \<and> run_script latin1_lower clock_2026 [''get_current_time.py'', ''--bogus'']
       = (''Unknown argument: --bogus\<newline>Use --help for usage information\<newline>'', 1)"
proof -
  have low: "lower latin1_lower ''--Nope'' = ''--nope''"
    by (simp add: lower_def is_ascii_def lower_char_def)
  have unknown: "\<not> recognized (lower latin1_lower ''--Nope'')"
    by (simp add: low recognized_def flags_def)
  from unknown_argument_first_line
         [where ul = latin1_lower and t = "''--Nope''" and clk = clock_2026
            and p = "''get_current_time.py''" and rest = "[]", OF unknown] unknown
  show ?thesis by (simp add: low)
qed

text \<open>
  C10. Only the first command-line token decides what the run does: with two or more
  tokens, the statement \<open>main\<close> executes, the output and the exit status are those of the
  run with the first token alone.
\<close>

theorem later_arguments_ignored:
  "main ul clk (p # t # rest) = main ul clk [p, t]
   \<and> run_script ul clk (p # t # rest) = run_script ul clk [p, t]"
  by (simp add: main_eq run_script_def)

theorem later_arguments_ignored_witness:
  "run_script latin1_lower clock_2026 [''get_current_time.py'', ''--year'', ''--json'']
     = run_script latin1_lower clock_2026 [''get_current_time.py'', ''--year'']
   \<and> run_script latin1_lower clock_2026 [''get_current_time.py'', ''--year'', ''--json'']
       = (''2026\<newline>'', 0)"
proof -
  have "run_script latin1_lower clock_2026 [''get_current_time.py'', ''--year'']
          = (''2026\<newline>'', 0)"
    by (simp add: run_script_main main_eq lower_def is_ascii_def lower_char_def getitem_year
          print_def clock_2026_def instant_2026_def str_int_2026)
  with later_arguments_ignored
         [where ul = latin1_lower and clk = clock_2026 and p = "''get_current_time.py''"
            and t = "''--year''" and rest = "[''--json'']"]
  show ?thesis by simp
qed

text \<open>What each recognized branch writes, and that it raises nothing.\<close>

lemma main_year:
  assumes "lower ul t = ''--year'' \<or> lower ul t = ''-y''"
  shows "main ul clk (p # t # rest) out
           = (out @ strftime (reading clk (reads clk)) ''%Y'' @ ''\<newline>'', None)"
  using assms by (auto simp: main_eq getitem_year print_def directive_def)

lemma main_search:
  assumes "lower ul t = ''--search'' \<or> lower ul t = ''-s''"
  shows "main ul clk (p # t # rest) out
           = (out @ strftime (reading clk (reads clk)) ''%Y'' @ ''\<newline>'', None)"
  using assms by (auto simp: main_eq getitem_search_suffix print_def directive_def)

lemma main_quarter:
  assumes "lower ul t = ''--quarter'' \<or> lower ul t = ''-q''"
  shows "main ul clk (p # t # rest) out
           = (out @ ''Q'' @ str_int ((month (reading clk (reads clk)) - 1) div 3 + 1) @ '' ''
                @ str_int (year (reading clk (reads clk))) @ ''\<newline>'', None)"
  using assms by (auto simp: main_eq getitem_quarter print_def)

lemma main_date:
  assumes "lower ul t = ''--date'' \<or> lower ul t = ''-d''"
  shows "main ul clk (p # t # rest) out
           = (out @ strftime (reading clk (reads clk)) ''%Y-%m-%d'' @ ''\<newline>'', None)"
  using assms by (auto simp: main_eq getitem_date_iso print_def simp del: strftime.simps)

lemma main_json_flag:
  assumes "lower ul t = ''--json'' \<or> lower ul t = ''-j''"
  shows "main ul clk (p # t # rest) out
           = (out @ json_dumps (fst (get_time_info clk)) 2 @ ''\<newline>'', None)"
  using assms by (auto simp: main_eq print_def)

lemma main_tips:
  assumes "lower ul t = ''--tips'' \<or> lower ul t = ''-t''"
  shows "main ul clk (p # t # rest) = print_search_tips (fst (get_time_info clk))"
  using assms by (auto simp: main_eq)

lemma main_help:
  assumes "lower ul t = ''--help'' \<or> lower ul t = ''-h''"
  shows "main ul clk (p # t # rest) out
           = (out @ doc @ ''\<newline>''
                @ ''\<newline>Options:\<newline>''
                @ ''  --year, -y     Just the current year (e.g., 2026)\<newline>''
                @ ''  --search, -s   Search-friendly suffix\<newline>''
                @ ''  --quarter, -q  Current quarter (e.g., Q1 2026)\<newline>''
                @ ''  --date, -d     ISO date (e.g., 2026-02-08)\<newline>''
                @ ''  --json, -j     All formats as JSON\<newline>''
                @ ''  --tips, -t     Print search tips with examples\<newline>''
                @ ''  --help, -h     Show this help message\<newline>'', None)"
  using assms by (auto simp: main_eq print_def)

lemma tips_of_fields:
  "print_search_tips (fst (get_time_info clk)) out =
    (out @ replicate 60 (CHR ''='') @ ''\<newline>''
       @ ''TIME-AWARE SEARCH TIPS\<newline>''
       @ replicate 60 (CHR ''='') @ ''\<newline>''
       @ ''\<newline>Current Year: '' @ strftime (reading clk (reads clk)) ''%Y'' @ ''\<newline>''
       @ ''Current Quarter: ''
           @ (''Q'' @ str_int ((month (reading clk (reads clk)) - 1) div 3 + 1) @ '' ''
                @ str_int (year (reading clk (reads clk)))) @ ''\<newline>''
       @ ''Current Date: '' @ strftime (reading clk (reads clk)) ''%Y-%m-%d'' @ ''\<newline>''
       @ ''\<newline>''
       @ ''SEARCH QUERY EXAMPLES:\<newline>''
       @ replicate 40 (CHR ''-'') @ ''\<newline>''
       @ ''  \"FastAPI JWT authentication '' @ strftime (reading clk (reads clk)) ''%Y'' @ ''\"\<newline>''
       @ ''  \"React useEffect best practices '' @ strftime (reading clk (reads clk)) ''%Y'' @ ''\"\<newline>''
       @ ''  \"Python security vulnerabilities '' @ strftime (reading clk (reads clk)) ''%Y'' @ ''\"\<newline>''
       @ ''  \"Next.js 14 breaking changes '' @ strftime (reading clk (reads clk)) ''%Y'' @ ''\"\<newline>''
       @ ''\<newline>''
       @ ''WHY ADD THE YEAR?\<newline>''
       @ replicate 40 (CHR ''-'') @ ''\<newline>''
       @ ''  '' @ bullet @ '' Libraries and frameworks update frequently\<newline>''
       @ ''  '' @ bullet @ '' Best practices evolve over time\<newline>''
       @ ''  '' @ bullet @ '' Security recommendations change\<newline>''
       @ ''  '' @ bullet @ '' Adding the year filters out outdated content\<newline>''
       @ ''  '' @ bullet @ '' Results prioritize recent tutorials and docs\<newline>''
       @ ''\<newline>''
       @ ''SEARCH SUFFIXES TO TRY:\<newline>''
       @ replicate 40 (CHR ''-'') @ ''\<newline>''
       @ ''  \"[topic] '' @ strftime (reading clk (reads clk)) ''%Y'' @ ''\"          - General current info\<newline>''
       @ ''  \"[topic] latest '' @ strftime (reading clk (reads clk)) ''%Y'' @ ''\"   - Emphasize recency\<newline>''
       @ ''  \"[topic] best practices '' @ strftime (reading clk (reads clk)) ''%Y'' @ ''\" - Current standards\<newline>''
       @ ''  \"[topic] changelog '' @ strftime (reading clk (reads clk)) ''%Y'' @ ''\" - Recent changes\<newline>''
       @ ''\<newline>'',
     None)"
proof -
  have y: "getitem (fst (get_time_info clk)) ''year'' = Inr (strftime (reading clk (reads clk)) ''%Y'')"
    by (simp add: getitem_year directive_def)
  show ?thesis
    by (rule print_search_tips_text [OF y getitem_quarter getitem_date_iso])
qed

text \<open>
  C8. A run whose first token is one of the seven flags or their aliases (in any case)
  writes what its branch prints, raises nothing and ends with exit status 0: the one field
  for \<open>--year\<close>, \<open>--search\<close>, \<open>--quarter\<close> and \<open>--date\<close>, the JSON object for \<open>--json\<close>,
  the tips block for \<open>--tips\<close>, the docstring and the option list for \<open>--help\<close>. A run with
  no token writes the tips block and ends with status 0. The exit status is not zero
  exactly when there is a first token and it is not recognized.
\<close>

theorem recognized_branches_exit_zero:
  fixes clk :: clock
  defines "now \<equiv> reading clk (reads clk)"
  defines "tips \<equiv>
       replicate 60 (CHR ''='') @ ''\<newline>''
       @ ''TIME-AWARE SEARCH TIPS\<newline>''
       @ replicate 60 (CHR ''='') @ ''\<newline>''
       @ ''\<newline>Current Year: '' @ strftime now ''%Y'' @ ''\<newline>''
       @ ''Current Quarter: ''
           @ (''Q'' @ str_int ((month now - 1) div 3 + 1) @ '' '' @ str_int (year now))
           @ ''\<newline>''
       @ ''Current Date: '' @ strftime now ''%Y-%m-%d'' @ ''\<newline>''
       @ ''\<newline>''
       @ ''SEARCH QUERY EXAMPLES:\<newline>''
       @ replicate 40 (CHR ''-'') @ ''\<newline>''
       @ ''  \"FastAPI JWT authentication '' @ strftime now ''%Y'' @ ''\"\<newline>''
       @ ''  \"React useEffect best practices '' @ strftime now ''%Y'' @ ''\"\<newline>''
       @ ''  \"Python security vulnerabilities '' @ strftime now ''%Y'' @ ''\"\<newline>''
       @ ''  \"Next.js 14 breaking changes '' @ strftime now ''%Y'' @ ''\"\<newline>''
       @ ''\<newline>''
       @ ''WHY ADD THE YEAR?\<newline>''
       @ replicate 40 (CHR ''-'') @ ''\<newline>''
       @ ''  '' @ bullet @ '' Libraries and frameworks update frequently\<newline>''
       @ ''  '' @ bullet @ '' Best practices evolve over time\<newline>''
       @ ''  '' @ bullet @ '' Security recommendations change\<newline>''
       @ ''  '' @ bullet @ '' Adding the year filters out outdated content\<newline>''
       @ ''  '' @ bullet @ '' Results prioritize recent tutorials and docs\<newline>''
       @ ''\<newline>''
       @ ''SEARCH SUFFIXES TO TRY:\<newline>''
       @ replicate 40 (CHR ''-'') @ ''\<newline>''
       @ ''  \"[topic] '' @ strftime now ''%Y'' @ ''\"          - General current info\<newline>''
       @ ''  \"[topic] latest '' @ strftime now ''%Y'' @ ''\"   - Emphasize recency\<newline>''
       @ ''  \"[topic] best practices '' @ strftime now ''%Y'' @ ''\" - Current standards\<newline>''
       @ ''  \"[topic] changelog '' @ strftime now ''%Y'' @ ''\" - Recent changes\<newline>''
       @ ''\<newline>''"
  shows
    "(recognized arg \<longleftrightarrow>
        arg \<in> {''--year'', ''-y'', ''--search'', ''-s'', ''--quarter'', ''-q'', ''--date'', ''-d'',
               ''--json'', ''-j'', ''--tips'', ''-t'', ''--help'', ''-h''})
     \<and> (lower ul t = ''--year'' \<or> lower ul t = ''-y'' \<longrightarrow>
          run_script ul clk (p # t # rest) = (strftime now ''%Y'' @ ''\<newline>'', 0))
     \<and> (lower ul t = ''--search'' \<or> lower ul t = ''-s'' \<longrightarrow>
          run_script ul clk (p # t # rest) = (strftime now ''%Y'' @ ''\<newline>'', 0))
     \<and> (lower ul t = ''--quarter'' \<or> lower ul t = ''-q'' \<longrightarrow>
          run_script ul clk (p # t # rest)
            = (''Q'' @ str_int ((month now - 1) div 3 + 1) @ '' '' @ str_int (year now)
                 @ ''\<newline>'', 0))
     \<and> (lower ul t = ''--date'' \<or> lower ul t = ''-d'' \<longrightarrow>
          run_script ul clk (p # t # rest) = (strftime now ''%Y-%m-%d'' @ ''\<newline>'', 0))
     \<and> (lower ul t = ''--json'' \<or> lower ul t = ''-j'' \<longrightarrow>
          run_script ul clk (p # t # rest)
            = (json_dumps (fst (get_time_info clk)) 2 @ ''\<newline>'', 0))
     \<and> (lower ul t = ''--tips'' \<or> lower ul t = ''-t'' \<longrightarrow>
          run_script ul clk (p # t # rest) = (tips, 0))
     \<and> (lower ul t = ''--help'' \<or> lower ul t = ''-h'' \<longrightarrow>
          run_script ul clk (p # t # rest)
            = (doc @ ''\<newline>''
                 @ ''\<newline>Options:\<newline>''
                 @ ''  --year, -y     Just the current year (e.g., 2026)\<newline>''
                 @ ''  --search, -s   Search-friendly suffix\<newline>''
                 @ ''  --quarter, -q  Current quarter (e.g., Q1 2026)\<newline>''
                 @ ''  --date, -d     ISO date (e.g., 2026-02-08)\<newline>''
                 @ ''  --json, -j     All formats as JSON\<newline>''
                 @ ''  --tips, -t     Print search tips with examples\<newline>''
                 @ ''  --help, -h     Show this help message\<newline>'', 0))
     \<and> (length argv \<le> 1 \<longrightarrow> run_script ul clk argv = (tips, 0))
     \<and> (snd (run_script ul clk argv) \<noteq> 0
          \<longleftrightarrow> length argv > 1 \<and> \<not> recognized (lower ul (argv ! 1)))"
proof -
  have tips_out: "print_search_tips (fst (get_time_info clk)) [] = (tips, None)"
    using tips_of_fields [of clk "[]"] by (simp add: tips_def now_def del: strftime.simps)
  have b_year: "lower ul t = ''--year'' \<or> lower ul t = ''-y'' \<longrightarrow>
          run_script ul clk (p # t # rest) = (strftime now ''%Y'' @ ''\<newline>'', 0)"
    by (simp add: run_script_main main_year now_def del: strftime.simps)
  have b_search: "lower ul t = ''--search'' \<or> lower ul t = ''-s'' \<longrightarrow>
          run_script ul clk (p # t # rest) = (strftime now ''%Y'' @ ''\<newline>'', 0)"
    by (simp add: run_script_main main_search now_def del: strftime.simps)
  have b_quarter: "lower ul t = ''--quarter'' \<or> lower ul t = ''-q'' \<longrightarrow>
          run_script ul clk (p # t # rest)
            = (''Q'' @ str_int ((month now - 1) div 3 + 1) @ '' '' @ str_int (year now)
                 @ ''\<newline>'', 0)"
    by (simp add: run_script_main main_quarter now_def)
  have b_date: "lower ul t = ''--date'' \<or> lower ul t = ''-d'' \<longrightarrow>
          run_script ul clk (p # t # rest) = (strftime now ''%Y-%m-%d'' @ ''\<newline>'', 0)"
    by (simp add: run_script_main main_date now_def del: strftime.simps)
  have b_json: "lower ul t = ''--json'' \<or> lower ul t = ''-j'' \<longrightarrow>
          run_script ul clk (p # t # rest)
            = (json_dumps (fst (get_time_info clk)) 2 @ ''\<newline>'', 0)"
    by (simp add: run_script_main main_json_flag)
  have b_tips: "lower ul t = ''--tips'' \<or> lower ul t = ''-t'' \<longrightarrow>
          run_script ul clk (p # t # rest) = (tips, 0)"
    by (simp add: run_script_main main_tips tips_out)
  have b_help: "lower ul t = ''--help'' \<or> lower ul t = ''-h'' \<longrightarrow>
          run_script ul clk (p # t # rest)
            = (doc @ ''\<newline>''
                 @ ''\<newline>Options:\<newline>''
                 @ ''  --year, -y     Just the current year (e.g., 2026)\<newline>''
                 @ ''  --search, -s   Search-friendly suffix\<newline>''
                 @ ''  --quarter, -q  Current quarter (e.g., Q1 2026)\<newline>''
                 @ ''  --date, -d     ISO date (e.g., 2026-02-08)\<newline>''
                 @ ''  --json, -j     All formats as JSON\<newline>''
                 @ ''  --tips, -t     Print search tips with examples\<newline>''
                 @ ''  --help, -h     Show this help message\<newline>'', 0)"
    by (simp add: run_script_main main_help)
  have b_none: "length argv \<le> 1 \<longrightarrow> run_script ul clk argv = (tips, 0)"
    by (simp add: run_script_main main_no_argument tips_out)
  have b_status: "snd (run_script ul clk argv) \<noteq> 0
          \<longleftrightarrow> length argv > 1 \<and> \<not> recognized (lower ul (argv ! 1))"
    by (simp add: status_by_branch)
  from recognized_iff [of arg] b_year b_search b_quarter b_date b_json b_tips b_help b_none b_status
  show ?thesis by blast
qed

text \<open>At 2026-02-08 14:30:00: \<open>--DATE\<close> prints the date, \<open>-Q\<close> the quarter, the run with no
  token starts with the banner of the tips block, all with status 0; \<open>--bogus\<close> ends with
  a status that is not 0.\<close>

theorem recognized_branches_exit_zero_witness:
  "lower latin1_lower ''--DATE'' = ''--date''
   \<and> run_script latin1_lower clock_2026 [''get_current_time.py'', ''--DATE'']
       = (''2026-02-08\<newline>'', 0)
   \<and> lower latin1_lower ''-Q'' = ''-q''
   \<and> run_script latin1_lower clock_2026 [''get_current_time.py'', ''-Q''] = (''Q1 2026\<newline>'', 0)
   \<and> prefix (replicate 60 (CHR ''='') @ ''\<newline>TIME-AWARE SEARCH TIPS\<newline>''
              @ replicate 60 (CHR ''='') @ ''\<newline>\<newline>Current Year: 2026\<newline>'')
        (fst (run_script latin1_lower clock_2026 [''get_current_time.py'']))
   \<and> snd (run_script latin1_lower clock_2026 [''get_current_time.py'']) = 0
   \<and> snd (run_script latin1_lower clock_2026 [''get_current_time.py'', ''--bogus'']) \<noteq> 0"
proof -
  have low: "lower latin1_lower ''--DATE'' = ''--date''" "lower latin1_lower ''-Q'' = ''-q''"
    "lower latin1_lower ''--bogus'' = ''--bogus''"
    by (simp_all add: lower_def is_ascii_def lower_char_def)
  have now: "reading clock_2026 (reads clock_2026) = instant_2026"
    by (simp add: clock_2026_def)
  have y: "strftime instant_2026 ''%Y'' = ''2026''"
    by (simp add: directive_def instant_2026_def str_int_2026)
  have q: "''Q'' @ str_int ((month instant_2026 - 1) div 3 + 1) @ '' ''
             @ str_int (year instant_2026) = ''Q1 2026''"
    by (simp add: instant_2026_def str_int_small str_int_2026)
  have a: "run_script latin1_lower clock_2026 [''get_current_time.py'', ''--DATE'']
       = (''2026-02-08\<newline>'', 0)"
    using recognized_branches_exit_zero
      [where ul = latin1_lower and clk = clock_2026 and t = "''--DATE''"
         and p = "''get_current_time.py''" and rest = "[]"]
    by (simp add: low now strftime_date_2026 del: strftime.simps)
  have b: "run_script latin1_lower clock_2026 [''get_current_time.py'', ''-Q'']
       = (''Q1 2026\<newline>'', 0)"
    using recognized_branches_exit_zero
      [where ul = latin1_lower and clk = clock_2026 and t = "''-Q''"
         and p = "''get_current_time.py''" and rest = "[]"] q
    by (simp add: low now del: strftime.simps)
  have c: "prefix (replicate 60 (CHR ''='') @ ''\<newline>TIME-AWARE SEARCH TIPS\<newline>''
              @ replicate 60 (CHR ''='') @ ''\<newline>\<newline>Current Year: 2026\<newline>'')
             (fst (run_script latin1_lower clock_2026 [''get_current_time.py'']))
           \<and> snd (run_script latin1_lower clock_2026 [''get_current_time.py'']) = 0"
    using recognized_branches_exit_zero
      [where ul = latin1_lower and clk = clock_2026 and argv = "[''get_current_time.py'']"]
    by (simp add: now y del: strftime.simps)
  have d: "snd (run_script latin1_lower clock_2026 [''get_current_time.py'', ''--bogus'']) \<noteq> 0"
    using recognized_branches_exit_zero
      [where ul = latin1_lower and clk = clock_2026
         and argv = "[''get_current_time.py'', ''--bogus'']"] not_recognized_bogus
    by (simp add: low del: strftime.simps)
  from low a b c d show ?thesis by simp
qed

text \<open>The dispatch depends on the lowercased token only, and a flag and its alias select the
  same branch.\<close>

lemma lower_flags:
  assumes "(f, a) \<in> set flags"
  shows "lower ul f = f" and "lower ul a = a"
  using assms unfolding flags_def lower_def is_ascii_def lower_char_def by auto

lemma main_by_lowered:
  assumes "lower ul t = lower ul t'"
  shows "main ul clk [p, t] = main ul clk [p, t']"
  using assms by (simp add: main_eq)

lemma main_alias:
  assumes "(f, a) \<in> set flags"
  shows "main ul clk [p, f] = main ul clk [p, a]"
proof -
  have "main ul clk [p, f] = main ul clk [p, lower ul f]" "main ul clk [p, a] = main ul clk [p, lower ul a]"
    using lower_flags [OF assms] by simp_all
  moreover have "main ul clk [p, lower ul f] = main ul clk [p, lower ul a]"
    using assms unfolding lower_flags [OF assms] flags_def
    by (auto simp: main_eq lower_def is_ascii_def lower_char_def)
  ultimately show ?thesis by simp
qed

text \<open>
  C6. Dispatch is case-insensitive and alias-equivalent: for a flag \<open>f\<close> of the table with
  alias \<open>a\<close>, and a token \<open>t\<close> that is \<open>f\<close> or \<open>a\<close> up to the case of its letters, the runs
  with \<open>t\<close>, with \<open>f\<close> and with \<open>a\<close> against the same clock write the same output and end
  with the same status.
\<close>

theorem dispatch_case_insensitive:
  assumes "(f, a) \<in> set flags" and "lower ul t = f \<or> lower ul t = a"
  shows "run_script ul clk [p, t] = run_script ul clk [p, f]
         \<and> run_script ul clk [p, t] = run_script ul clk [p, a]"
proof -
  from assms(2) lower_flags [OF assms(1)]
  have "lower ul t = lower ul f \<or> lower ul t = lower ul a" by simp
  then have "main ul clk [p, t] = main ul clk [p, f] \<or> main ul clk [p, t] = main ul clk [p, a]"
    using main_by_lowered by blast
  with main_alias [OF assms(1), of ul clk p]
  have "main ul clk [p, t] = main ul clk [p, f]" "main ul clk [p, t] = main ul clk [p, a]"
    by auto
  then show ?thesis by (simp add: run_script_main)
qed

text \<open>\<open>--YEAR\<close>, \<open>--year\<close> and \<open>-y\<close> print the same line.\<close>

theorem dispatch_case_insensitive_witness:
  "(''--year'', ''-y'') \<in> set flags
   \<and> lower latin1_lower ''--YEAR'' = ''--year''
   \<and> run_script latin1_lower clock_2026 [''get_current_time.py'', ''--YEAR'']
       = run_script latin1_lower clock_2026 [''get_current_time.py'', ''--year'']
   \<and> run_script latin1_lower clock_2026 [''get_current_time.py'', ''--YEAR'']
       = run_script latin1_lower clock_2026 [''get_current_time.py'', ''-y'']
   \<and> run_script latin1_lower clock_2026 [''get_current_time.py'', ''-y''] = (''2026\<newline>'', 0)"
proof -
  have flag: "(''--year'', ''-y'') \<in> set flags"
    by (simp add: flags_def)
  have low: "lower latin1_lower ''--YEAR'' = ''--year''"
    by (simp add: lower_def is_ascii_def lower_char_def)
  then have variant: "lower latin1_lower ''--YEAR'' = ''--year'' \<or> lower latin1_lower ''--YEAR'' = ''-y''"
    by simp
  have "run_script latin1_lower clock_2026 [''get_current_time.py'', ''-y''] = (''2026\<newline>'', 0)"
    by (simp add: run_script_main main_eq lower_def is_ascii_def lower_char_def getitem_year print_def
          clock_2026_def instant_2026_def str_int_2026)
  with dispatch_case_insensitive
         [OF flag variant, where clk = clock_2026 and p = "''get_current_time.py''"] flag low
  show ?thesis by metis
qed

text \<open>
  C7. When the captured instant is 2026-02-08 14:30:00, \<open>--quarter\<close> prints \<open>Q1 2026\<close>,
  \<open>--date\<close> prints \<open>2026-02-08\<close>, \<open>--year\<close> prints \<open>2026\<close>, each ending with status 0, and
  the output of the run with no token contains \<open>Current Quarter: Q1 2026\<close>.
\<close>

theorem scenario_2026:
  assumes "reading clk (reads clk) = instant_2026"
  shows "run_script ul clk [p, ''--quarter''] = (''Q1 2026\<newline>'', 0)
         \<and> run_script ul clk [p, ''--date''] = (''2026-02-08\<newline>'', 0)
         \<and> run_script ul clk [p, ''--year''] = (''2026\<newline>'', 0)
         \<and> sublist ''Current Quarter: Q1 2026'' (fst (run_script ul clk [p]))
         \<and> snd (run_script ul clk [p]) = 0"
proof -
  have y: "year (reading clk (reads clk)) = 2026" and m: "month (reading clk (reads clk)) = 2"
    using assms by (simp_all add: instant_2026_def)
  have quarter: "run_script ul clk [p, ''--quarter''] = (''Q1 2026\<newline>'', 0)"
    by (simp add: run_script_main main_eq lower_def is_ascii_def lower_char_def getitem_quarter y m
          str_int_small str_int_2026 print_def)
  have date: "run_script ul clk [p, ''--date''] = (''2026-02-08\<newline>'', 0)"
    by (simp add: run_script_main main_eq lower_def is_ascii_def lower_char_def getitem_date_iso assms
          strftime_date_2026 print_def del: strftime.simps)
  have year: "run_script ul clk [p, ''--year''] = (''2026\<newline>'', 0)"
    by (simp add: run_script_main main_eq lower_def is_ascii_def lower_char_def getitem_year y str_int_2026
          print_def)
  have "\<exists>post. fst (print_search_tips (fst (get_time_info clk)) [])
           = (replicate 60 (CHR ''='') @ ''\<newline>TIME-AWARE SEARCH TIPS\<newline>''
              @ replicate 60 (CHR ''='') @ ''\<newline>\<newline>Current Year: 2026\<newline>'')
             @ ''Current Quarter: Q1 2026'' @ post"
    by (simp add: print_search_tips_def getitem_year getitem_quarter getitem_date_iso print_def
          fstring_def y m str_int_small str_int_2026)
  then have "sublist ''Current Quarter: Q1 2026''
               (fst (print_search_tips (fst (get_time_info clk)) []))"
    unfolding sublist_def by blast
  then have tips: "sublist ''Current Quarter: Q1 2026'' (fst (run_script ul clk [p]))"
    by (simp add: run_script_main main_no_argument)
  have status: "snd (run_script ul clk [p]) = 0"
    by (simp add: run_script_status main_no_argument tips_ok)
  from quarter date year tips status show ?thesis by simp
qed

theorem scenario_2026_witness:
  "reading clock_2026 (reads clock_2026) = instant_2026
   \<and> run_script latin1_lower clock_2026 [''get_current_time.py'', ''--quarter''] = (''Q1 2026\<newline>'', 0)
   \<and> run_script latin1_lower clock_2026 [''get_current_time.py'', ''--date''] = (''2026-02-08\<newline>'', 0)
   \<and> run_script latin1_lower clock_2026 [''get_current_time.py'', ''--year''] = (''2026\<newline>'', 0)
   \<and> sublist ''Current Quarter: Q1 2026'' (fst (run_script latin1_lower clock_2026 [''get_current_time.py'']))"
proof -
  have now: "reading clock_2026 (reads clock_2026) = instant_2026"
    by (simp add: clock_2026_def)
  from scenario_2026 [OF now, where ul = latin1_lower and p = "''get_current_time.py''"] now
  show ?thesis
    by simp
qed

section \<open>json.loads reads back what json.dumps wrote\<close>

lemma cons_token_eq: "cons_token t r = map_option ((#) t) r"
  by (cases r) (simp_all add: cons_token_def)

lemma hex_val_hex_digit:
  assumes "k < 16"
  shows "hex_val (hex_digit k) = Some k"
proof -
  from assms have "k = 0 \<or> k = 1 \<or> k = 2 \<or> k = 3 \<or> k = 4 \<or> k = 5 \<or> k = 6 \<or> k = 7
      \<or> k = 8 \<or> k = 9 \<or> k = 10 \<or> k = 11 \<or> k = 12 \<or> k = 13 \<or> k = 14 \<or> k = 15"
    by arith
  then show ?thesis
    unfolding hex_val_def hex_digit_def
    by (elim disjE) simp_all
qed

lemma code_point_hex:
  "code_point (CHR ''0'') (CHR ''0'') (hex_digit (of_char c div 16)) (hex_digit (of_char c mod 16)) = Some c"
proof -
  have n: "(of_char c :: nat) < 256" by simp
  then have d: "(of_char c :: nat) div 16 < 16" by arith
  have z: "hex_val (CHR ''0'') = Some 0" by (simp add: hex_val_def)
  show ?thesis
    using n by (simp add: code_point_def z hex_val_hex_digit d)
qed

lemma scanstring_escape_char:
  "scanstring acc (escape_char c @ rest) = scanstring (c # acc) rest"
  using code_point_hex [of c]
  by (auto simp: escape_char_def backslash_def unescape_def)

lemma scanstring_escaped:
  "scanstring acc (concat (map escape_char s) @ CHR 0x22 # rest)
     = cons_token (Str (rev acc @ s)) (scan rest)"
  by (induction s arbitrary: acc) (simp_all add: scanstring_escape_char)

lemma scan_encoded:
  "scan (encode_basestring_ascii s @ rest) = cons_token (Str s) (scan rest)"
  using scanstring_escaped [of "[]" s rest]
  by (simp add: encode_basestring_ascii_def is_whitespace_def)


lemma scan_newline_indent:
  "scan (CHR 0x0A # replicate n (CHR '' '') @ rest) = scan rest"
  by (induction n) (simp_all add: is_whitespace_def)

lemma scan_item:
  "scan (item (k, v) @ rest) = map_option (\<lambda>ts. Str k # Colon # Str v # ts) (scan rest)"
proof -
  have "scan ('': '' @ encode_basestring_ascii v @ rest) = cons_token Colon (cons_token (Str v) (scan rest))"
    using scan_encoded [of v rest] by (simp add: is_whitespace_def)
  then show ?thesis
    using scan_encoded [of k "'': '' @ encode_basestring_ascii v @ rest"]
    by (simp add: item_def cons_token_eq option.map_comp comp_def)
qed

lemma scan_members:
  assumes "d \<noteq> []"
  shows "scan (join ('','' @ CHR 0x0A # replicate n (CHR '' '')) (map item d) @ rest)
           = map_option (\<lambda>ts. member_tokens d @ ts) (scan rest)"
  using assms
proof (induction d rule: member_tokens.induct)
  case 1
  then show ?case by simp
next
  case (2 k v)
  then show ?case by (simp add: scan_item)
next
  case (3 k v kv kvs)
  have "scan ('','' @ (CHR 0x0A # replicate n (CHR '' '')) @ join ('','' @ CHR 0x0A # replicate n (CHR '' '')) (map item (kv # kvs)) @ rest)
        = cons_token Comma (scan (join ('','' @ CHR 0x0A # replicate n (CHR '' '')) (map item (kv # kvs)) @ rest))"
    using scan_newline_indent [of n "join ('','' @ CHR 0x0A # replicate n (CHR '' '')) (map item (kv # kvs)) @ rest"]
    by (simp add: is_whitespace_def)
  with 3 show ?case
    using scan_item [of k v "'','' @ (CHR 0x0A # replicate n (CHR '' '')) @ join ('','' @ CHR 0x0A # replicate n (CHR '' '')) (map item (kv # kvs)) @ rest"]
    by (simp add: cons_token_eq option.map_comp comp_def)
qed

lemma parse_member_tokens:
  assumes "d \<noteq> []"
  shows "parse_members (member_tokens d @ [RBrace]) = Some d"
  using assms by (induction d rule: member_tokens.induct) simp_all

lemma json_dumps_eq:
  "json_dumps d n =
     (if d = [] then ''{}''
      else ''{'' @ (CHR 0x0A # replicate n (CHR '' ''))
           @ join ('','' @ CHR 0x0A # replicate n (CHR '' '')) (map item d) @ ''\<newline>'' @ ''}'')"
proof -
  have "(\<lambda>(k, v). encode_basestring_ascii k @ '': '' @ encode_basestring_ascii v) = item"
    by (auto simp: item_def fun_eq_iff)
  then show ?thesis
    by (simp add: json_dumps_def Let_def)
qed

lemma scan_json_dumps:
  assumes "d \<noteq> []"
  shows "scan (json_dumps d n @ ''\<newline>'') = Some (LBrace # member_tokens d @ [RBrace])"
proof -
  have "scan (join ('','' @ CHR 0x0A # replicate n (CHR '' '')) (map item d) @ ''\<newline>}\<newline>'')
          = Some (member_tokens d @ [RBrace])"
    using scan_members [OF assms, of n "''\<newline>}\<newline>''"]
    by (simp add: is_whitespace_def cons_token_def)
  then show ?thesis
    using assms scan_newline_indent [of n "join ('','' @ CHR 0x0A # replicate n (CHR '' '')) (map item d) @ ''\<newline>}\<newline>''"]
    by (simp add: json_dumps_eq is_whitespace_def cons_token_def)
qed

lemma json_round_trip:
  "json_loads (json_dumps d n @ ''\<newline>'') = Some d"
proof (cases d)
  case Nil
  then show ?thesis
    by (simp add: json_loads_def json_dumps_def is_whitespace_def cons_token_def)
next
  case (Cons kv d')
  then have ne: "d \<noteq> []" by simp
  obtain k v where kv: "kv = (k, v)" by (cases kv)
  have "member_tokens d \<noteq> []" "hd (member_tokens d) = Str k"
    using Cons kv by (cases d'; simp)+
  then obtain ts where ts: "member_tokens d = Str k # ts"
    by (cases "member_tokens d") auto
  show ?thesis
    using parse_member_tokens [OF ne] scan_json_dumps [OF ne, of n]
    by (simp add: json_loads_def ts)
qed


lemma escape_plain_char: "plain_char c \<Longrightarrow> escape_char c = [c]"
  by (auto simp: plain_char_def escape_char_def)

lemma escape_plain: "plain s \<Longrightarrow> concat (map escape_char s) = s"
  by (induction s) (simp_all add: plain_def escape_plain_char)

lemma encode_plain: "plain s \<Longrightarrow> encode_basestring_ascii s = CHR 0x22 # s @ [CHR 0x22]"
  by (simp add: encode_basestring_ascii_def escape_plain)

lemma plain_append [simp]: "plain (s @ t) \<longleftrightarrow> plain s \<and> plain t"
  by (simp add: plain_def)

lemma plain_digit_char: "plain_char (digit_char d)"
proof -
  have "d mod 10 < 10" by simp
  then have "d mod 10 = 0 \<or> d mod 10 = 1 \<or> d mod 10 = 2 \<or> d mod 10 = 3 \<or> d mod 10 = 4
      \<or> d mod 10 = 5 \<or> d mod 10 = 6 \<or> d mod 10 = 7 \<or> d mod 10 = 8 \<or> d mod 10 = 9"
    by arith
  then show ?thesis
    unfolding digit_char_def plain_char_def backslash_def
    by (elim disjE) simp_all
qed

lemma plain_str_nat: "plain (str_nat n)"
proof (induction n rule: str_nat.induct)
  case (1 n)
  show ?case
  proof (cases "n < 10")
    case True
    then show ?thesis
      by (subst str_nat.simps) (simp add: plain_def plain_digit_char)
  next
    case False
    with 1 show ?thesis
      by (subst str_nat.simps) (simp add: plain_def plain_digit_char)
  qed
qed

lemma plain_str_int: "plain (str_int i)"
  using plain_str_nat [of "nat i"] plain_str_nat [of "nat (- i)"]
  by (simp add: str_int_def plain_def plain_char_def backslash_def)

lemma plain_zfill: "plain s \<Longrightarrow> plain (zfill w s)"
  by (simp add: zfill_def) (simp add: plain_def plain_char_def backslash_def list_all_iff)

lemma plain_month_name: "plain (month_name m)"
proof (cases "1 \<le> m \<and> m \<le> 12")
  case False
  then show ?thesis by (auto simp: month_name_def plain_def)
next
  case True
  then have "m = 1 \<or> m = 2 \<or> m = 3 \<or> m = 4 \<or> m = 5 \<or> m = 6 \<or> m = 7 \<or> m = 8 \<or> m = 9
      \<or> m = 10 \<or> m = 11 \<or> m = 12"
    by arith
  then show ?thesis
    unfolding month_name_def plain_def plain_char_def backslash_def
    by (elim disjE) simp_all
qed

lemma plain_directive: "plain_char c \<Longrightarrow> plain (directive dt c)"
  by (simp add: directive_def plain_str_int plain_zfill plain_month_name)
     (simp add: plain_def plain_char_def backslash_def)

lemma plain_strftime: "plain fmt \<Longrightarrow> plain (strftime dt fmt)"
proof (induction dt fmt rule: strftime.induct)
  case (1 dt c d fmt)
  from "1.prems" have c: "plain_char c" and d: "plain_char d" and fmt: "plain fmt"
    by (simp_all add: plain_def)
  show ?case
  proof (cases "c = CHR ''%''")
    case True
    with "1.IH" fmt plain_directive [OF d, of dt] show ?thesis by simp
  next
    case False
    with "1.IH" c d fmt have "plain (strftime dt (d # fmt))"
      by (simp add: plain_def)
    with False c show ?thesis by (simp add: plain_def)
  qed
qed simp_all

section \<open>The output of \<open>--json\<close>\<close>

lemma item_plain:
  assumes "plain k" and "plain v"
  shows "item (k, v) = CHR 0x22 # k @ ''\": \"'' @ v @ ''\"''"
  using assms by (simp add: item_def encode_plain)

lemma plain_keys:
  "plain ''year''" "plain ''year_short''" "plain ''month_year''" "plain ''quarter''"
  "plain ''date_iso''" "plain ''search_suffix''" "plain ''full_datetime''"
  by (simp_all add: plain_def plain_char_def backslash_def)

lemma plain_formats:
  "plain ''%Y''" "plain ''%y''" "plain ''%B %Y''" "plain ''%Y-%m-%d''" "plain ''%Y-%m-%d %H:%M:%S''"
  "plain ''Q''" "plain '' ''"
  by (simp_all add: plain_def plain_char_def backslash_def)

lemma json_dumps_seven:
  assumes "plain v1" "plain v2" "plain v3" "plain v4" "plain v5" "plain v6" "plain v7"
  shows "json_dumps [(''year'', v1), (''year_short'', v2), (''month_year'', v3), (''quarter'', v4),
            (''date_iso'', v5), (''search_suffix'', v6), (''full_datetime'', v7)] 2
         = ''{\<newline>  \"year\": \"'' @ v1
           @ ''\",\<newline>  \"year_short\": \"'' @ v2
           @ ''\",\<newline>  \"month_year\": \"'' @ v3
           @ ''\",\<newline>  \"quarter\": \"'' @ v4
           @ ''\",\<newline>  \"date_iso\": \"'' @ v5
           @ ''\",\<newline>  \"search_suffix\": \"'' @ v6
           @ ''\",\<newline>  \"full_datetime\": \"'' @ v7
           @ ''\"\<newline>}''"
proof -
  have two: "replicate 2 (CHR '' '') = ''  ''"
    by (simp add: numeral_2_eq_2)
  show ?thesis
    by (simp add: json_dumps_eq item_plain assms plain_keys two)
qed

lemma main_json:
  "main ul clk [p, ''--json''] out = (out @ json_dumps (fst (get_time_info clk)) 2 @ ''\<newline>'', None)"
  by (simp add: main_eq lower_def is_ascii_def lower_char_def print_def)

lemma fields_2026:
  "fst (get_time_info clock_2026) =
     [(''year'', ''2026''), (''year_short'', ''26''), (''month_year'', ''February 2026''),
      (''quarter'', ''Q1 2026''), (''date_iso'', ''2026-02-08''), (''search_suffix'', ''2026''),
      (''full_datetime'', ''2026-02-08 14:30:00'')]"
  by (simp add: get_time_info_def datetime_now_def clock_2026_def instant_2026_def directive_def
        str_int_def str_nat_numeral digit_char_def zfill_def month_name_def)

text \<open>
  C3. The table that \<open>--json\<close> serializes has exactly the seven keys \<open>year\<close>,
  \<open>year_short\<close>, \<open>month_year\<close>, \<open>quarter\<close>, \<open>date_iso\<close>, \<open>search_suffix\<close>,
  \<open>full_datetime\<close>, in this order, each with a text value; the run prints the object
  with one item per line after two spaces, every key and value between quotes as it is;
  and reading the printed text back with \<open>json.loads\<close> gives the table that
  \<open>get_time_info\<close> computed for the same instant.
\<close>

theorem json_output_round_trip:
  fixes clk :: clock
  defines "now \<equiv> reading clk (reads clk)"
  shows "map fst (fst (get_time_info clk))
           = [''year'', ''year_short'', ''month_year'', ''quarter'', ''date_iso'', ''search_suffix'',
              ''full_datetime'']
         \<and> run_script ul clk [p, ''--json''] = (json_dumps (fst (get_time_info clk)) 2 @ ''\<newline>'', 0)
         \<and> json_dumps (fst (get_time_info clk)) 2
             = ''{\<newline>  \"year\": \"'' @ strftime now ''%Y''
               @ ''\",\<newline>  \"year_short\": \"'' @ strftime now ''%y''
               @ ''\",\<newline>  \"month_year\": \"'' @ strftime now ''%B %Y''
               @ ''\",\<newline>  \"quarter\": \"''
                   @ (''Q'' @ str_int ((month now - 1) div 3 + 1) @ '' '' @ str_int (year now))
               @ ''\",\<newline>  \"date_iso\": \"'' @ strftime now ''%Y-%m-%d''
               @ ''\",\<newline>  \"search_suffix\": \"'' @ strftime now ''%Y''
               @ ''\",\<newline>  \"full_datetime\": \"'' @ strftime now ''%Y-%m-%d %H:%M:%S''
               @ ''\"\<newline>}''
         \<and> json_loads (fst (run_script ul clk [p, ''--json''])) = Some (fst (get_time_info clk))"
proof -
  have ti: "fst (get_time_info clk) =
      [(''year'', strftime now ''%Y''), (''year_short'', strftime now ''%y''),
       (''month_year'', strftime now ''%B %Y''),
       (''quarter'', ''Q'' @ str_int ((month now - 1) div 3 + 1) @ '' '' @ str_int (year now)),
       (''date_iso'', strftime now ''%Y-%m-%d''), (''search_suffix'', strftime now ''%Y''),
       (''full_datetime'', strftime now ''%Y-%m-%d %H:%M:%S'')]"
    by (simp add: get_time_info_def datetime_now_def now_def)
  have keys: "map fst (fst (get_time_info clk))
           = [''year'', ''year_short'', ''month_year'', ''quarter'', ''date_iso'', ''search_suffix'',
              ''full_datetime'']"
    unfolding ti by simp
  have run: "run_script ul clk [p, ''--json''] = (json_dumps (fst (get_time_info clk)) 2 @ ''\<newline>'', 0)"
    by (simp add: run_script_main main_json)
  have q: "plain (''Q'' @ str_int ((month now - 1) div 3 + 1) @ '' '' @ str_int (year now))"
    using plain_str_int [of "(month now - 1) div 3 + 1"] plain_str_int [of "year now"]
    by (simp add: plain_def plain_char_def backslash_def)
  have layout: "json_dumps (fst (get_time_info clk)) 2
             = ''{\<newline>  \"year\": \"'' @ strftime now ''%Y''
               @ ''\",\<newline>  \"year_short\": \"'' @ strftime now ''%y''
               @ ''\",\<newline>  \"month_year\": \"'' @ strftime now ''%B %Y''
               @ ''\",\<newline>  \"quarter\": \"''
                   @ (''Q'' @ str_int ((month now - 1) div 3 + 1) @ '' '' @ str_int (year now))
               @ ''\",\<newline>  \"date_iso\": \"'' @ strftime now ''%Y-%m-%d''
               @ ''\",\<newline>  \"search_suffix\": \"'' @ strftime now ''%Y''
               @ ''\",\<newline>  \"full_datetime\": \"'' @ strftime now ''%Y-%m-%d %H:%M:%S''
               @ ''\"\<newline>}''"
    unfolding ti
    by (rule json_dumps_seven) (rule plain_strftime plain_formats q)+
  have reread: "json_loads (fst (run_script ul clk [p, ''--json''])) = Some (fst (get_time_info clk))"
    unfolding run by (simp add: json_round_trip)
  from keys run layout reread show ?thesis by blast
qed


theorem json_output_round_trip_witness:
  "fst (run_script latin1_lower clock_2026 [''get_current_time.py'', ''--json''])
     = ''{\<newline>  \"year\": \"2026\",\<newline>  \"year_short\": \"26\",\<newline>  \"month_year\": \"February 2026\",\<newline>  \"quarter\": \"Q1 2026\",\<newline>  \"date_iso\": \"2026-02-08\",\<newline>  \"search_suffix\": \"2026\",\<newline>  \"full_datetime\": \"2026-02-08 14:30:00\"\<newline>}\<newline>''
   \<and> json_loads (fst (run_script latin1_lower clock_2026 [''get_current_time.py'', ''--json'']))
       = Some [(''year'', ''2026''), (''year_short'', ''26''), (''month_year'', ''February 2026''),
               (''quarter'', ''Q1 2026''), (''date_iso'', ''2026-02-08''), (''search_suffix'', ''2026''),
               (''full_datetime'', ''2026-02-08 14:30:00'')]"
proof -
  note inst = json_output_round_trip
                [where clk = clock_2026 and ul = latin1_lower and p = "''get_current_time.py''"]
  have vals:
    "strftime (reading clock_2026 (reads clock_2026)) ''%Y'' = ''2026''"
    "strftime (reading clock_2026 (reads clock_2026)) ''%y'' = ''26''"
    "strftime (reading clock_2026 (reads clock_2026)) ''%B %Y'' = ''February 2026''"
    "''Q'' @ str_int ((month (reading clock_2026 (reads clock_2026)) - 1) div 3 + 1) @ '' ''
       @ str_int (year (reading clock_2026 (reads clock_2026))) = ''Q1 2026''"
    "strftime (reading clock_2026 (reads clock_2026)) ''%Y-%m-%d'' = ''2026-02-08''"
    "strftime (reading clock_2026 (reads clock_2026)) ''%Y-%m-%d %H:%M:%S'' = ''2026-02-08 14:30:00''"
    by (simp_all add: clock_2026_def instant_2026_def directive_def
        str_int_def str_nat_numeral digit_char_def zfill_def month_name_def)
  from inst have "fst (run_script latin1_lower clock_2026 [''get_current_time.py'', ''--json''])
      = json_dumps (fst (get_time_info clock_2026)) 2 @ ''\<newline>''"
    by simp
  moreover from inst have "json_dumps (fst (get_time_info clock_2026)) 2
     = ''{\<newline>  \"year\": \"2026\",\<newline>  \"year_short\": \"26\",\<newline>  \"month_year\": \"February 2026\",\<newline>  \"quarter\": \"Q1 2026\",\<newline>  \"date_iso\": \"2026-02-08\",\<newline>  \"search_suffix\": \"2026\",\<newline>  \"full_datetime\": \"2026-02-08 14:30:00\"\<newline>}''"
    unfolding vals by simp
  moreover from inst have "json_loads (fst (run_script latin1_lower clock_2026 [''get_current_time.py'', ''--json'']))
       = Some (fst (get_time_info clock_2026))"
    by blast
  ultimately show ?thesis
    by (simp add: fields_2026)
qed

end
